theory Spec2Isabelle
  imports Complex_Main
begin

section \<open>Shared utilities (utils.py)\<close>

text \<open>
  Python strings are modelled as \<open>string\<close>, one \<open>char\<close> standing for one character of
  the Python string, so that \<open>length\<close> is Python's \<open>len\<close>. A dict key read with
  \<open>.get\<close> is an optional field (\<open>None\<close>: the key is absent); a key read by
  subscript is a mandatory field. The floats of the code are similarities
  rounded to four decimals, decimal literals, and sums of such literals with 0.1; they are
  modelled by the decimal they denote, as \<open>real\<close>. Comparing two such floats agrees with
  comparing their decimals. The sums 0.7 + 0.1 and (0.7 + 0.1) + 0.1 are one unit in the
  last place below 0.8 and 0.9 in binary floating point: the comparisons with 0.5 and 0.6
  and the score rounded to two decimals are the same for the float and its decimal, the
  comparison with 0.8 behind \<open>confidence_level\<close> is not, and there the model takes the
  exact value of the float (\<open>confidence_float\<close> below).
\<close>

text \<open>
  \<^verbatim>\<open>truncate_string(s, max_length)\<close>: \<open>if not s: return ""\<close>, then
  \<open>s\<close> itself when \<open>len(s) <= max_length\<close>, else \<open>s[:max_length] + "..."\<close>.
\<close>

definition truncate_string :: "string option \<Rightarrow> nat \<Rightarrow> string" where
  "truncate_string s max_length =
     (case s of
        None \<Rightarrow> []
      | Some t \<Rightarrow>
          if t = [] then []
          else if length t \<le> max_length then t
          else take max_length t @ ''...'')"

section \<open>Regex knowledge base (knowledge_base.py)\<close>

text \<open>
  The exceptions of the code. \<open>re.error\<close> is the one \<open>match_error\<close> catches; the regex
  engine raises others as well (\<open>OverflowError\<close> for a repetition count that is too
  large, \<open>RecursionError\<close>, \<open>TypeError\<close> for a pattern that is not a string), and
  \<open>AttributeError\<close> is what \<open>.get\<close> raises on a JSON value that is not an object.
\<close>

datatype py_exception = ReError | OverflowError | RecursionError | TypeError | AttributeError

text \<open>
  The \<open>pattern\<close> key of a catalog entry: absent (\<open>.get\<close> then gives the empty string),
  present with a value that is not a string (JSON null or a number), or a string.
\<close>

datatype pattern_field = PatternAbsent | PatternNotString | PatternString string

text \<open>
  One entry of \<open>common_errors.json\<close>. \<open>match_error\<close> reads \<open>id\<close> and \<open>title\<close> by
  subscript and everything else with \<open>.get\<close>.
\<close>

record kb_error =
  e_id :: string
  e_title :: string
  e_description :: "string option"
  e_pattern :: pattern_field
  e_category :: "string option"
  e_common_causes :: "string list option"
  e_solutions :: "string list option"
  e_severity :: "string option"
  e_estimated_fix_time :: "string option"
  e_docs :: "string list option"

text \<open>
  \<open>re.findall(pattern, error_message, re.IGNORECASE)\<close> belongs to Python's library, so
  the regex engine is a parameter: for a pattern and a message it either raises an
  exception or returns the list of matches.
\<close>

type_synonym findall = "string \<Rightarrow> string \<Rightarrow> py_exception + string list"

text \<open>The call of \<open>re.findall\<close> on the value of \<open>error.get("pattern", "")\<close>.\<close>

definition call_findall ::
  "findall \<Rightarrow> pattern_field \<Rightarrow> string \<Rightarrow> py_exception + string list"
where
  "call_findall re pattern msg =
     (case pattern of
        PatternAbsent \<Rightarrow> re [] msg
      | PatternNotString \<Rightarrow> Inl TypeError
      | PatternString p \<Rightarrow> re p msg)"

text \<open>
  The loop of \<open>match_error\<close> over \<open>self.errors\<close>, carrying \<open>(best_match, best_score)\<close>.
  The \<open>except re.error\<close> branch logs and continues with the next entry; any other
  exception leaves the loop and the function.
\<close>

fun match_loop ::
  "findall \<Rightarrow> string \<Rightarrow> kb_error list \<Rightarrow> kb_error option \<times> nat
     \<Rightarrow> py_exception + kb_error option \<times> nat"
where
  "match_loop re msg [] acc = Inr acc"
| "match_loop re msg (error # rest) (best_match, best_score) =
     (let pattern = e_pattern error in
      case call_findall re pattern msg of
        Inl exn \<Rightarrow>
          if exn = ReError then match_loop re msg rest (best_match, best_score)
          else Inl exn
      | Inr matches \<Rightarrow>
          if matches \<noteq> [] then
            (let score = length matches in
             if score > best_score then match_loop re msg rest (Some error, score)
             else match_loop re msg rest (best_match, best_score))
          else match_loop re msg rest (best_match, best_score))"

definition match_error ::
  "findall \<Rightarrow> kb_error list \<Rightarrow> string option \<Rightarrow> py_exception + kb_error option"
where
  "match_error re errors error_message =
     (case error_message of
        None \<Rightarrow> Inr None
      | Some msg \<Rightarrow>
          if msg = [] then Inr None
          else (case match_loop re msg errors (None, 0) of
                  Inl exn \<Rightarrow> Inl exn
                | Inr (best_match, best_score) \<Rightarrow> Inr best_match))"

text \<open>
  The number of matches an entry produces (none when the engine raises on its pattern),
  whether the engine raises \<open>re.error\<close> on it, and whether it raises anything else.
\<close>

definition match_count :: "findall \<Rightarrow> string \<Rightarrow> kb_error \<Rightarrow> nat" where
  "match_count re msg error =
     (case call_findall re (e_pattern error) msg of
        Inl _ \<Rightarrow> 0
      | Inr matches \<Rightarrow> length matches)"

definition pattern_compiles :: "findall \<Rightarrow> string \<Rightarrow> kb_error \<Rightarrow> bool" where
  "pattern_compiles re msg error = (call_findall re (e_pattern error) msg \<noteq> Inl ReError)"

definition raises_uncaught :: "findall \<Rightarrow> string \<Rightarrow> kb_error \<Rightarrow> bool" where
  "raises_uncaught re msg error =
     (case call_findall re (e_pattern error) msg of
        Inl exn \<Rightarrow> exn \<noteq> ReError
      | Inr _ \<Rightarrow> False)"

text \<open>\<open>d.get(key, default)\<close> on an optional field.\<close>

definition py_get :: "'a option \<Rightarrow> 'a \<Rightarrow> 'a" where
  "py_get field dflt = (case field of None \<Rightarrow> dflt | Some v \<Rightarrow> v)"

text \<open>Truthiness of \<open>d.get(key)\<close> for a boolean field: an absent key gives None, which is falsy.\<close>

definition truthy :: "bool option \<Rightarrow> bool" where
  "truthy field = (case field of None \<Rightarrow> False | Some b \<Rightarrow> b)"

text \<open>A resolution runbook of \<open>runbooks.json\<close>; every key is read with \<open>.get\<close>.\<close>

record runbook =
  rb_title :: "string option"
  rb_steps :: "string list option"
  rb_estimated_time :: "string option"
  rb_prevention :: "string list option"

text \<open>The state of a \<open>KnowledgeBase\<close> after \<open>_load_data\<close>: the catalog and the runbooks by category.\<close>

record knowledge_base =
  errors :: "kb_error list"
  runbooks :: "string \<Rightarrow> runbook option"

definition get_runbook :: "knowledge_base \<Rightarrow> string \<Rightarrow> runbook option" where
  "get_runbook kb cat = runbooks kb cat"

section \<open>Vector knowledge base (vector_knowledge_base.py)\<close>

text \<open>
  One entry of \<open>ADF_ERROR_KNOWLEDGE\<close>. \<open>prevention\<close>, \<open>estimated_fix_time\<close> and
  \<open>documentation\<close> are read with \<open>.get\<close>, the other keys by subscript.
\<close>

record ventry =
  v_id :: string
  v_category :: string
  v_severity :: string
  v_title :: string
  v_error_pattern :: string
  v_description :: string
  v_causes :: "string list"
  v_solutions :: "string list"
  v_prevention :: "string list option"
  v_estimated_fix_time :: "string option"
  v_documentation :: "string list option"

text \<open>A match built by \<open>search\<close>: \<open>{"entry": ..., "similarity": ..., "distance": ...}\<close>.\<close>

record search_hit =
  h_entry :: ventry
  h_similarity :: real
  h_distance :: real

text \<open>
  \<open>search(error_message, n_results)\<close> queries the ChromaDB collection, which is outside the
  repository: it is a parameter that either raises or returns the ranked matches.
\<close>

datatype store_error = StoreError

type_synonym vsearch = "string \<Rightarrow> nat \<Rightarrow> store_error + search_hit list"

section \<open>Enrichments\<close>

text \<open>The \<open>error_entry\<close> of an enrichment is an entry of the regex catalog or of the vector catalog.\<close>

datatype catalog_entry = RegexEntry kb_error | VectorEntry ventry

fun entry_id :: "catalog_entry \<Rightarrow> string" where
  "entry_id (RegexEntry e) = e_id e"
| "entry_id (VectorEntry v) = v_id v"

fun entry_title :: "catalog_entry \<Rightarrow> string" where
  "entry_title (RegexEntry e) = e_title e"
| "entry_title (VectorEntry v) = v_title v"

fun entry_description :: "catalog_entry \<Rightarrow> string option" where
  "entry_description (RegexEntry e) = e_description e"
| "entry_description (VectorEntry v) = Some (v_description v)"

record similar_error =
  se_title :: string
  se_similarity :: real

text \<open>
  The enrichment dict, with every key any producer of the repository sets. The type
  parameter is the representation of the \<open>known_solutions\<close> list: the list itself
  (\<open>string list\<close>) where only values matter, an address in a store of list objects where
  the identity of the list object matters.
\<close>

record 'sol enrichment =
  pattern_matched :: "bool option"
  error_entry :: "catalog_entry option"
  runbook :: "runbook option"
  category :: "string option"
  known_causes :: "string list option"
  known_solutions :: "'sol option"
  severity :: "string option"
  estimated_fix_time :: "string option"
  documentation_links :: "string list option"
  match_confidence :: "real option"
  prevention :: "string list option"
  similar_errors :: "similar_error list option"
  closest_match :: "string option"

text \<open>The empty dict \<open>{}\<close>.\<close>

definition empty_enrichment :: "'sol enrichment" where
  "empty_enrichment =
     \<lparr>pattern_matched = None, error_entry = None, runbook = None, category = None,
      known_causes = None, known_solutions = None, severity = None,
      estimated_fix_time = None, documentation_links = None, match_confidence = None,
      prevention = None, similar_errors = None, closest_match = None\<rparr>"

text \<open>
  \<open>KnowledgeBase.get_enrichment\<close>: pattern match and runbook. An exception of
  \<open>match_error\<close> is not caught here.
\<close>

definition kb_get_enrichment ::
  "findall \<Rightarrow> knowledge_base \<Rightarrow> string option \<Rightarrow> py_exception + string list enrichment"
where
  "kb_get_enrichment re kb error_message =
     (case match_error re (errors kb) error_message of
        Inl exn \<Rightarrow> Inl exn
      | Inr matched \<Rightarrow>
          (let enrichment =
                 \<lparr>pattern_matched = Some (matched \<noteq> None),
                  error_entry = map_option RegexEntry matched,
                  runbook = None,
                  category = Some ''unknown'',
                  known_causes = Some [],
                  known_solutions = Some [],
                  severity = Some ''medium'',
                  estimated_fix_time = Some ''unknown'',
                  documentation_links = Some [],
                  match_confidence = None, prevention = None, similar_errors = None,
                  closest_match = None\<rparr>
           in case matched of
                None \<Rightarrow> Inr enrichment
              | Some m \<Rightarrow>
                  (let cat = py_get (e_category m) ''unknown'' in
                   Inr (enrichment
                     \<lparr>category := Some cat,
                      known_causes := Some (py_get (e_common_causes m) []),
                      known_solutions := Some (py_get (e_solutions m) []),
                      severity := Some (py_get (e_severity m) ''medium''),
                      estimated_fix_time := Some (py_get (e_estimated_fix_time m) ''unknown''),
                      documentation_links := Some (py_get (e_docs m) []),
                      runbook := get_runbook kb cat\<rparr>))))"

text \<open>
  \<open>VectorKnowledgeBase.get_enrichment\<close>. A failure of \<open>search\<close> propagates to the caller.
  \<open>matches[1:3]\<close> is \<open>take 2 (drop 1 matches)\<close>.
\<close>

definition vkb_get_enrichment ::
  "vsearch \<Rightarrow> string option \<Rightarrow> store_error + string list enrichment"
where
  "vkb_get_enrichment search error_message =
     (case error_message of
        None \<Rightarrow> Inr (empty_enrichment\<lparr>pattern_matched := Some False\<rparr>)
      | Some msg \<Rightarrow>
          if msg = [] then Inr (empty_enrichment\<lparr>pattern_matched := Some False\<rparr>)
          else
            (case search msg 3 of
               Inl err \<Rightarrow> Inl err
             | Inr matches \<Rightarrow>
                 (case matches of
                    [] \<Rightarrow> Inr (empty_enrichment\<lparr>pattern_matched := Some False\<rparr>)
                  | best # _ \<Rightarrow>
                      (let entry = h_entry best in
                       if h_similarity best < 3 / 10 then
                         Inr (empty_enrichment
                                \<lparr>pattern_matched := Some False,
                                 closest_match := Some (v_title entry)\<rparr>)
                       else
                         Inr \<lparr>pattern_matched = Some True,
                              error_entry = Some (VectorEntry entry),
                              runbook = Some
                                \<lparr>rb_title = Some (''Troubleshoot: '' @ v_title entry),
                                 rb_steps = Some (take 8 (v_solutions entry)),
                                 rb_estimated_time =
                                   Some (py_get (v_estimated_fix_time entry) ''15-30 minutes''),
                                 rb_prevention = Some (py_get (v_prevention entry) [])\<rparr>,
                              category = Some (v_category entry),
                              known_causes = Some (v_causes entry),
                              known_solutions = Some (v_solutions entry),
                              severity = Some (v_severity entry),
                              estimated_fix_time =
                                Some (py_get (v_estimated_fix_time entry) ''unknown''),
                              documentation_links = Some (py_get (v_documentation entry) []),
                              match_confidence = Some (h_similarity best),
                              prevention = Some (py_get (v_prevention entry) []),
                              similar_errors = Some
                                (map (\<lambda>m. \<lparr>se_title = v_title (h_entry m),
                                           se_similarity = h_similarity m\<rparr>)
                                   (take 2 (drop 1 matches))),
                              closest_match = None\<rparr>))))"

section \<open>Merging the two enrichments (error_analyzer.py)\<close>

text \<open>
  The loop \<open>for sol in vector_solutions: if sol not in existing_solutions:
  merged.setdefault("known_solutions", []).append(sol)\<close>. \<open>existing_solutions\<close> is the
  set built before the loop; the loop does not update it.
\<close>

fun append_new ::
  "string set \<Rightarrow> string list \<Rightarrow> string list enrichment \<Rightarrow> string list enrichment"
where
  "append_new existing_solutions [] merged = merged"
| "append_new existing_solutions (sol # sols) merged =
     (if sol \<notin> existing_solutions
      then append_new existing_solutions sols
             (merged\<lparr>known_solutions := Some (py_get (known_solutions merged) [] @ [sol])\<rparr>)
      else append_new existing_solutions sols merged)"

text \<open>
  \<open>_merge_kb_enrichments\<close>, on the values of the dicts: what it returns. (What it does to
  the list objects it was given is modelled separately below.)
\<close>

definition merge_kb_enrichments ::
  "string list enrichment \<Rightarrow> string list enrichment \<Rightarrow> string list enrichment"
where
  "merge_kb_enrichments regex_kb vector_kb =
     (if \<not> truthy (pattern_matched vector_kb) \<and> \<not> truthy (pattern_matched regex_kb)
      then (if regex_kb = empty_enrichment then empty_enrichment else regex_kb)
      else if truthy (pattern_matched vector_kb) \<and> \<not> truthy (pattern_matched regex_kb)
      then vector_kb
      else if truthy (pattern_matched regex_kb) \<and> \<not> truthy (pattern_matched vector_kb)
      then regex_kb
      else
        (let merged = regex_kb;
             vector_solutions = py_get (known_solutions vector_kb) [];
             existing_solutions = set (py_get (known_solutions merged) []);
             merged = append_new existing_solutions vector_solutions merged
         in merged
              \<lparr>prevention :=
                 Some (py_get (prevention vector_kb) (py_get (prevention merged) [])),
               similar_errors := Some (py_get (similar_errors vector_kb) []),
               match_confidence := Some (py_get (match_confidence vector_kb) 0)\<rparr>))"

section \<open>Failure records and the prompt (error_analyzer.py)\<close>

text \<open>
  The failure record \<open>error_details\<close>. Its keys \<open>parameters\<close>, \<open>invoked_by\<close>, \<open>run_start\<close>,
  \<open>run_end\<close>, \<open>duration_ms\<close> and \<open>total_activities\<close> are copied into the prompt and the
  report and never inspected; they are left out.
\<close>

record activity =
  activity_name :: "string option"
  activity_type :: "string option"
  activity_error :: "string option"

record failure_record =
  pipeline_name :: "string option"
  run_id :: "string option"
  primary_error_message :: "string option"
  primary_error_code :: "string option"
  primary_failure_type :: "string option"
  failing_activity_name :: "string option"
  failing_activity_type :: "string option"
  failed_activities :: "activity list option"
  succeeded_activities :: "activity list option"

record kb_hint =
  hint_category :: "string option"
  hint_known_causes :: "string list option"
  hint_severity :: "string option"

text \<open>
  The \<open>context\<close> dict of \<open>_build_prompt\<close>. The prompt itself is a fixed sentence, the JSON
  dump of this dict and another fixed sentence, so the model stops at the dict.
\<close>

record prompt_context =
  pc_pipeline_name :: "string option"
  pc_run_id :: "string option"
  pc_primary_error_code :: "string option"
  pc_primary_error_message :: string
  pc_primary_failure_type :: "string option"
  pc_failing_activity_name :: "string option"
  pc_failing_activity_type :: "string option"
  pc_failed_activities :: "activity list"
  pc_succeeded_activities_count :: nat
  pc_knowledge_base_match :: "kb_hint option"

definition build_prompt :: "failure_record \<Rightarrow> string list enrichment \<Rightarrow> prompt_context" where
  "build_prompt error_details kb_enrichment =
     (let failed_activities_summary =
            map (\<lambda>act. \<lparr>activity_name = activity_name act,
                         activity_type = activity_type act,
                         activity_error = activity_error act\<rparr>)
              (py_get (failed_activities error_details) []);
          succeeded_count = length (py_get (succeeded_activities error_details) []);
          context =
            \<lparr>pc_pipeline_name = pipeline_name error_details,
             pc_run_id = run_id error_details,
             pc_primary_error_code = primary_error_code error_details,
             pc_primary_error_message =
               truncate_string (Some (py_get (primary_error_message error_details) [])) 2000,
             pc_primary_failure_type = primary_failure_type error_details,
             pc_failing_activity_name = failing_activity_name error_details,
             pc_failing_activity_type = failing_activity_type error_details,
             pc_failed_activities = failed_activities_summary,
             pc_succeeded_activities_count = succeeded_count,
             pc_knowledge_base_match = None\<rparr>
      in if truthy (pattern_matched kb_enrichment)
         then context
                \<lparr>pc_knowledge_base_match :=
                   Some \<lparr>hint_category = category kb_enrichment,
                         hint_known_causes = known_causes kb_enrichment,
                         hint_severity = severity kb_enrichment\<rparr>\<rparr>
         else context)"

section \<open>Report synthesis (error_analyzer.py)\<close>

record solution =
  s_title :: string
  s_steps :: "string list"
  s_estimated_time :: string
  s_likelihood :: string

record doc_link =
  d_title :: string
  d_url :: string

text \<open>The JSON object the generative model is asked for; \<open>_merge_analysis\<close> reads every key with \<open>.get\<close>.\<close>

record ai_analysis =
  a_plain_english_error :: "string option"
  a_root_cause :: "string option"
  a_category :: "string option"
  a_severity :: "string option"
  a_solutions :: "solution list option"
  a_preventive_measures :: "string list option"
  a_related_documentation :: "doc_link list option"
  a_additional_checks :: "string list option"
  a_data_engineering_tips :: "string option"

text \<open>What \<open>json.loads\<close> returns: a JSON object, or another JSON value (a list, a string, a number).\<close>

datatype ai_json = JsonObject ai_analysis | JsonOther

text \<open>
  \<open>self.model.generate_content(prompt)\<close> followed by fence stripping and \<open>json.loads\<close>: the
  call raises, or the text does not parse (\<open>json.JSONDecodeError\<close>), or it parses.
\<close>

datatype ai_response = AiRaises | AiUnparsable | AiParsed ai_json

type_synonym ai_model = "prompt_context \<Rightarrow> ai_response"

definition sq :: string where
  "sq = [CHR 0x27]"

text \<open>\<open>sep.join(xs)\<close>.\<close>

fun join :: "string \<Rightarrow> string list \<Rightarrow> string" where
  "join sep [] = []"
| "join sep [x] = x"
| "join sep (x # y # ys) = x @ sep @ join sep (y # ys)"

text \<open>Truthiness of a runbook dict: None and the empty dict are falsy.\<close>

definition runbook_truthy :: "runbook option \<Rightarrow> bool" where
  "runbook_truthy rb =
     (case rb of
        None \<Rightarrow> False
      | Some r \<Rightarrow>
          r \<noteq> \<lparr>rb_title = None, rb_steps = None, rb_estimated_time = None,
                rb_prevention = None\<rparr>)"

text \<open>
  \<open>_fallback_analysis\<close>. In the matched branch the solutions are built from
  \<open>known_solutions[:5]\<close>, and the runbook, when it has steps, is inserted in front.
\<close>

definition fallback_analysis ::
  "failure_record \<Rightarrow> string list enrichment option \<Rightarrow> ai_analysis"
where
  "fallback_analysis error_details kb_enrichment_arg =
     (let kb_enrichment = py_get kb_enrichment_arg empty_enrichment;
          kb_matched = py_get (pattern_matched kb_enrichment) False;
          pipeline = py_get (pipeline_name error_details) ''Unknown'';
          activity = py_get (failing_activity_name error_details) ''Unknown'';
          error_msg = py_get (primary_error_message error_details) ''No details'';
          (plain_error, root_cause, cat, sev, solutions, prevention) =
            (if kb_matched then
               (let title = (case error_entry kb_enrichment of
                               None \<Rightarrow> [] | Some e \<Rightarrow> entry_title e);
                    description = (case error_entry kb_enrichment of
                                     None \<Rightarrow> [] | Some e \<Rightarrow> py_get (entry_description e) []);
                    plain_error =
                      ''The pipeline '' @ sq @ pipeline @ sq @ '' failed at activity '' @ sq
                        @ activity @ sq @ ''. '' @ ''This is a known error: '' @ title @ ''. ''
                        @ description;
                    joined = join ''. '' (take 3 (py_get (known_causes kb_enrichment) []));
                    root_cause = (if joined \<noteq> [] then joined else ''See known causes above'');
                    cat = py_get (category kb_enrichment) ''unknown'';
                    sev = py_get (severity kb_enrichment) ''medium'';
                    solutions =
                      map (\<lambda>(i, sol).
                             \<lparr>s_title = sol, s_steps = [],
                              s_estimated_time =
                                py_get (estimated_fix_time kb_enrichment) ''15-30 minutes'',
                              s_likelihood = (if i = 0 then ''high'' else ''medium'')\<rparr>)
                        (enumerate 0 (take 5 (py_get (known_solutions kb_enrichment) [])));
                    rb = runbook kb_enrichment;
                    solutions =
                      (case rb of
                         None \<Rightarrow> solutions
                       | Some r \<Rightarrow>
                           if runbook_truthy rb \<and> py_get (rb_steps r) [] \<noteq> [] then
                             \<lparr>s_title = ''Follow Runbook: ''
                                          @ py_get (rb_title r) ''Troubleshooting Guide'',
                              s_steps = take 8 (py_get (rb_steps r) []),
                              s_estimated_time = py_get (rb_estimated_time r) ''15-30 minutes'',
                              s_likelihood = ''high''\<rparr> # solutions
                           else solutions);
                    prevention =
                      (case rb of
                         None \<Rightarrow> []
                       | Some r \<Rightarrow> if runbook_truthy rb then py_get (rb_prevention r) [] else [])
                in (plain_error, root_cause, cat, sev, solutions, prevention))
             else
               (''The pipeline '' @ sq @ pipeline @ sq @ '' failed at activity '' @ sq
                  @ activity @ sq @ ''. '' @ ''Error: '' @ truncate_string (Some error_msg) 300,
                ''Could not automatically determine root cause. Please review the error message.'',
                ''unknown'',
                ''medium'',
                [\<lparr>s_title = ''Manual Investigation'',
                  s_steps =
                    [''Open Azure Data Factory Monitor'',
                     ''Find the pipeline run with ID: '' @ py_get (run_id error_details) ''N/A'',
                     ''Review the failing activity error details'',
                     ''Check the activity input/output for data issues'',
                     ''Review linked service connections''],
                  s_estimated_time = ''15-30 minutes'',
                  s_likelihood = ''medium''\<rparr>],
                []))
      in \<lparr>a_plain_english_error = Some plain_error,
          a_root_cause = Some root_cause,
          a_category = Some cat,
          a_severity = Some sev,
          a_solutions = Some solutions,
          a_preventive_measures = Some
            (if prevention \<noteq> [] then prevention
             else [''Add monitoring alerts for pipeline failures'',
                   ''Implement retry policies on activities'',
                   ''Add data validation activities'']),
          a_related_documentation = Some
            (map (\<lambda>d. \<lparr>d_title = d, d_url = d\<rparr>)
               (py_get (documentation_links kb_enrichment) [])),
          a_additional_checks = Some [],
          a_data_engineering_tips =
            Some ''Consider adding logging and validation steps to your pipeline.''\<rparr>)"

text \<open>
  \<open>_get_ai_analysis\<close>: whatever \<open>json.loads\<close> returns is returned as it is, and both
  \<open>except\<close> clauses return the fallback analysis. (\<open>_build_prompt\<close> runs inside the same
  \<open>try\<close>; on this typed failure record it does not raise.)
\<close>

definition get_ai_analysis ::
  "ai_model \<Rightarrow> failure_record \<Rightarrow> string list enrichment \<Rightarrow> ai_json"
where
  "get_ai_analysis model error_details kb_enrichment =
     (case model (build_prompt error_details kb_enrichment) of
        AiParsed ai_result \<Rightarrow> ai_result
      | AiUnparsable \<Rightarrow> JsonObject (fallback_analysis error_details (Some kb_enrichment))
      | AiRaises \<Rightarrow> JsonObject (fallback_analysis error_details (Some kb_enrichment)))"

section \<open>Fact checking (fact_checker.py)\<close>

text \<open>
  A knowledge-base match as \<open>_fallback_verification\<close> reads it: \<open>similarity\<close> and \<open>entry\<close>
  with \<open>.get\<close>.
\<close>

record kb_match =
  m_entry :: "ventry option"
  m_similarity :: "real option"

record verification =
  confidence_score :: real
  confidence_level :: string
  root_cause_accurate :: bool
  solutions_applicable :: bool
  severity_correct :: bool
  corrections :: "string list"
  flagged_issues :: "string list"
  verification_method :: "string option"

record report_similar =
  rs_title :: string
  rs_similarity :: real
  rs_category :: string

text \<open>
  The diagnostic report: the dict built by \<open>_merge_analysis\<close>, to which \<open>analyze\<close> adds
  \<open>fact_check\<close>, \<open>confidence_score\<close>, \<open>confidence_level\<close> and \<open>similar_errors\<close>.
\<close>

record report =
  r_pipeline_name :: "string option"
  r_run_id :: "string option"
  r_failing_activity :: "string option"
  r_failing_activity_type :: "string option"
  r_plain_english_error :: string
  r_raw_error_message :: string
  r_error_code :: string
  r_category :: string
  r_severity :: string
  r_root_cause :: string
  r_solutions :: "solution list"
  r_known_solutions :: "string list"
  r_runbook :: "runbook option"
  r_preventive_measures :: "string list"
  r_additional_checks :: "string list"
  r_data_engineering_tips :: string
  r_estimated_fix_time :: string
  r_documentation_links :: "doc_link list"
  r_failed_activities :: "activity list"
  r_succeeded_activities_count :: nat
  r_kb_pattern_matched :: bool
  r_kb_error_id :: "string option"
  r_fact_check :: "verification option"
  r_confidence_score :: "real option"
  r_confidence_level :: "string option"
  r_similar_errors :: "report_similar list option"

definition score_to_level :: "real \<Rightarrow> string" where
  "score_to_level score =
     (if score \<ge> 8 / 10 then ''high''
      else if score \<ge> 6 / 10 then ''medium''
      else ''low'')"

text \<open>
  \<open>round(x, ndigits)\<close>: to the nearest multiple of \<open>10 ^ (- ndigits)\<close>, a tie to the even
  neighbour.
\<close>

definition py_round :: "real \<Rightarrow> nat \<Rightarrow> real" where
  "py_round x ndigits =
     (let y = x * 10 ^ ndigits;
          f = \<lfloor>y\<rfloor>;
          r = (if y - of_int f < 1 / 2 then f
               else if y - of_int f > 1 / 2 then f + 1
               else if even f then f else f + 1)
      in of_int r / 10 ^ ndigits)"

text \<open>
  The value of the local variable \<open>confidence\<close> of \<open>_fallback_verification\<close> when the
  result dict is built. \<open>analysis.get("root_cause")\<close>, \<open>analysis.get("solutions")\<close> and
  \<open>analysis.get("category")\<close> are truthy when the string or list is not empty.
\<close>

definition fallback_confidence :: "report \<Rightarrow> kb_match list option \<Rightarrow> real" where
  "fallback_confidence analysis kb_matches =
     (let confidence = 5 / 10;
          confidence =
            (case kb_matches of
               Some (m # ms) \<Rightarrow>
                 (let best_sim = py_get (m_similarity m) 0 in
                  if best_sim > 6 / 10 then 85 / 100
                  else if best_sim > 4 / 10 then 70 / 100
                  else if best_sim > 3 / 10 then 60 / 100
                  else confidence)
             | _ \<Rightarrow> confidence);
          confidence =
            (if r_root_cause analysis \<noteq> [] \<and> r_solutions analysis \<noteq> []
             then min (confidence + 1 / 10) (95 / 100) else confidence);
          confidence =
            (case kb_matches of
               Some (m # ms) \<Rightarrow>
                 if r_category analysis \<noteq> [] then
                   (let kb_cat = (case m_entry m of None \<Rightarrow> [] | Some e \<Rightarrow> v_category e) in
                    if kb_cat = r_category analysis
                    then min (confidence + 1 / 10) (95 / 100) else confidence)
                 else confidence
             | _ \<Rightarrow> confidence)
      in confidence)"

text \<open>The flag text; its dash is U+2014, written here as its three UTF-8 bytes.\<close>

definition low_confidence_flag :: string where
  "low_confidence_flag =
     ''Low confidence '' @ [CHR 0xE2, CHR 0x80, CHR 0x94] @ '' manual review recommended''"

text \<open>
  The float the code holds in \<open>confidence\<close>, for its decimal. The decimal 0.8 is reached
  only as 0.7 + 0.1 and the decimal 0.9 only as (0.7 + 0.1) + 0.1; in binary floating
  point these sums are 7205759403792793 / 2 ^ 53 and 8106479329266892 / 2 ^ 53, just
  below 0.8 and 0.9. Every other value the code reaches is the float nearest to its
  decimal, for which the decimal stands.
\<close>

definition confidence_float :: "real \<Rightarrow> real" where
  "confidence_float c =
     (if c = 8 / 10 then 7205759403792793 / 9007199254740992
      else if c = 9 / 10 then 8106479329266892 / 9007199254740992
      else c)"

definition fallback_verification :: "report \<Rightarrow> kb_match list option \<Rightarrow> verification" where
  "fallback_verification analysis kb_matches =
     (let confidence = fallback_confidence analysis kb_matches in
      \<lparr>confidence_score = py_round confidence 2,
       confidence_level = score_to_level (confidence_float confidence),
       root_cause_accurate = (confidence > 6 / 10),
       solutions_applicable = (confidence > 5 / 10),
       severity_correct = True,
       corrections = [],
       flagged_issues = (if confidence > 5 / 10 then [] else [low_confidence_flag]),
       verification_method = Some ''knowledge_base_fallback''\<rparr>)"

text \<open>
  The JSON object the fact-checking model answers with; \<open>verify\<close> fills missing keys with
  \<open>setdefault\<close>. On a JSON value that is not an object \<open>setdefault\<close> raises, and
  \<open>except Exception\<close> returns the fallback verification.
\<close>

record fc_json =
  j_confidence_score :: "real option"
  j_confidence_level :: "string option"
  j_root_cause_accurate :: "bool option"
  j_solutions_applicable :: "bool option"
  j_severity_correct :: "bool option"
  j_corrections :: "string list option"
  j_flagged_issues :: "string list option"

datatype fc_value = FcObject fc_json | FcOther

datatype fc_response = FcRaises | FcUnparsable | FcParsed fc_value

text \<open>The fact-checking model sees the failure record, the report and at most three matches.\<close>

type_synonym fc_model = "failure_record \<Rightarrow> report \<Rightarrow> kb_match list \<Rightarrow> fc_response"

definition verify ::
  "fc_model \<Rightarrow> failure_record \<Rightarrow> report \<Rightarrow> kb_match list option \<Rightarrow> verification"
where
  "verify model error_details analysis kb_matches =
     (case model error_details analysis (take 3 (py_get kb_matches [])) of
        FcParsed (FcObject result) \<Rightarrow>
          (let score = py_get (j_confidence_score result) (5 / 10) in
           \<lparr>confidence_score = score,
            confidence_level = py_get (j_confidence_level result) (score_to_level score),
            root_cause_accurate = py_get (j_root_cause_accurate result) True,
            solutions_applicable = py_get (j_solutions_applicable result) True,
            severity_correct = py_get (j_severity_correct result) True,
            corrections = py_get (j_corrections result) [],
            flagged_issues = py_get (j_flagged_issues result) [],
            verification_method = None\<rparr>)
      | FcParsed FcOther \<Rightarrow> fallback_verification analysis kb_matches
      | FcUnparsable \<Rightarrow> fallback_verification analysis kb_matches
      | FcRaises \<Rightarrow> fallback_verification analysis kb_matches)"

section \<open>The orchestrator (error_analyzer.py)\<close>

text \<open>\<open>str(x)\<close> inside an f-string for an optional string.\<close>

definition py_str :: "string option \<Rightarrow> string" where
  "py_str field = (case field of None \<Rightarrow> ''None'' | Some s \<Rightarrow> s)"

text \<open>
  \<open>_merge_analysis\<close>. It reads the analysis with \<open>.get\<close>, which a JSON value that is not an
  object does not have: \<open>AttributeError\<close>.
\<close>

definition merge_analysis ::
  "failure_record \<Rightarrow> string list enrichment \<Rightarrow> ai_json \<Rightarrow> py_exception + report"
where
  "merge_analysis error_details kb_enrichment ai_analysis =
     (case ai_analysis of
        JsonOther \<Rightarrow> Inl AttributeError
      | JsonObject ai \<Rightarrow> Inr
     \<lparr>r_pipeline_name = pipeline_name error_details,
      r_run_id = run_id error_details,
      r_failing_activity = failing_activity_name error_details,
      r_failing_activity_type = failing_activity_type error_details,
      r_plain_english_error =
        py_get (a_plain_english_error ai)
          (''Pipeline '' @ sq @ py_str (pipeline_name error_details) @ sq @ '' failed ''
             @ ''at activity '' @ sq @ py_str (failing_activity_name error_details) @ sq @ ''.''),
      r_raw_error_message = py_get (primary_error_message error_details) [],
      r_error_code = py_get (primary_error_code error_details) [],
      r_category = py_get (a_category ai) (py_get (category kb_enrichment) ''unknown''),
      r_severity = py_get (a_severity ai) (py_get (severity kb_enrichment) ''medium''),
      r_root_cause = py_get (a_root_cause ai) ''Unable to determine root cause'',
      r_solutions = py_get (a_solutions ai) [],
      r_known_solutions = py_get (known_solutions kb_enrichment) [],
      r_runbook = runbook kb_enrichment,
      r_preventive_measures = py_get (a_preventive_measures ai) [],
      r_additional_checks = py_get (a_additional_checks ai) [],
      r_data_engineering_tips = py_get (a_data_engineering_tips ai) [],
      r_estimated_fix_time = py_get (estimated_fix_time kb_enrichment) ''unknown'',
      r_documentation_links =
        py_get (a_related_documentation ai) []
          @ map (\<lambda>url. \<lparr>d_title = ''Microsoft Docs'', d_url = url\<rparr>)
              (py_get (documentation_links kb_enrichment) []),
      r_failed_activities = py_get (failed_activities error_details) [],
      r_succeeded_activities_count = length (py_get (succeeded_activities error_details) []),
      r_kb_pattern_matched = py_get (pattern_matched kb_enrichment) False,
      r_kb_error_id = map_option entry_id (error_entry kb_enrichment),
      r_fact_check = None,
      r_confidence_score = None,
      r_confidence_level = None,
      r_similar_errors = None\<rparr>)"

text \<open>
  An \<open>ErrorAnalyzer\<close> after \<open>__init__\<close>: the regex knowledge base with its regex engine, the
  vector knowledge base and the fact checker (each None when its initialisation failed),
  and the generative model.
\<close>

record analyzer =
  an_findall :: findall
  an_knowledge_base :: knowledge_base
  an_vector_kb :: "vsearch option"
  an_fact_checker :: "fc_model option"
  an_model :: ai_model

definition hit_to_match :: "search_hit \<Rightarrow> kb_match" where
  "hit_to_match h = \<lparr>m_entry = Some (h_entry h), m_similarity = Some (h_similarity h)\<rparr>"

text \<open>
  Steps 1 and 2 of \<open>analyze\<close>: the regex enrichment, and the vector enrichment with the
  matches. An exception of the vector knowledge base is logged; what was assigned before
  it is kept.
\<close>

definition vector_lookup ::
  "analyzer \<Rightarrow> string \<Rightarrow> string list enrichment \<times> search_hit list"
where
  "vector_lookup self primary_error =
     (case an_vector_kb self of
        None \<Rightarrow> (empty_enrichment, [])
      | Some search \<Rightarrow>
          (case vkb_get_enrichment search (Some primary_error) of
             Inl _ \<Rightarrow> (empty_enrichment, [])
           | Inr vector_enrichment \<Rightarrow>
               (case search primary_error 3 of
                  Inl _ \<Rightarrow> (vector_enrichment, [])
                | Inr vector_matches \<Rightarrow> (vector_enrichment, vector_matches))))"

text \<open>
  Steps 1 to 3: the merged enrichment. The regex lookup of step 1 is outside every
  \<open>try\<close>, so an exception of \<open>match_error\<close> leaves \<open>analyze\<close>.
\<close>

definition merged_enrichment ::
  "analyzer \<Rightarrow> failure_record \<Rightarrow> py_exception + string list enrichment"
where
  "merged_enrichment self error_details =
     (let primary_error = py_get (primary_error_message error_details) [] in
      case kb_get_enrichment (an_findall self) (an_knowledge_base self) (Some primary_error) of
        Inl exn \<Rightarrow> Inl exn
      | Inr kb_enrichment \<Rightarrow>
          (let (vector_enrichment, vector_matches) = vector_lookup self primary_error
           in Inr (merge_kb_enrichments kb_enrichment vector_enrichment)))"

text \<open>
  Steps 6 and 7 of \<open>analyze\<close>: the fact check and the similar errors. With the typed
  verification record the \<open>except\<close> of step 6 is not reached: \<open>verify\<close> catches every
  exception itself.
\<close>

definition attach_verification ::
  "analyzer \<Rightarrow> failure_record \<Rightarrow> search_hit list \<Rightarrow> report \<Rightarrow> report"
where
  "attach_verification self error_details vector_matches result0 =
     (let result =
            (case an_fact_checker self of
               Some fc \<Rightarrow>
                 (let verification =
                        verify fc error_details result0 (Some (map hit_to_match vector_matches))
                  in result0
                       \<lparr>r_fact_check := Some verification,
                        r_confidence_score := Some (confidence_score verification),
                        r_confidence_level := Some (confidence_level verification)\<rparr>)
             | None \<Rightarrow>
                 result0
                   \<lparr>r_confidence_score := Some (5 / 10),
                    r_confidence_level := Some ''medium''\<rparr>)
      in if vector_matches \<noteq> []
         then result
                \<lparr>r_similar_errors := Some
                   (map (\<lambda>m. \<lparr>rs_title = v_title (h_entry m),
                              rs_similarity = h_similarity m,
                              rs_category = v_category (h_entry m)\<rparr>)
                      (take 3 vector_matches))\<rparr>
         else result)"

text \<open>
  \<open>analyze\<close>: it returns the report, or the exception that leaves it (of the regex lookup
  of step 1, or of \<open>_merge_analysis\<close> in step 5).
\<close>

definition analyze :: "analyzer \<Rightarrow> failure_record \<Rightarrow> py_exception + report" where
  "analyze self error_details =
     (let primary_error = py_get (primary_error_message error_details) [] in
      case merged_enrichment self error_details of
        Inl exn \<Rightarrow> Inl exn
      | Inr merged_kb \<Rightarrow>
          (let (vector_enrichment, vector_matches) = vector_lookup self primary_error;
               ai = get_ai_analysis (an_model self) error_details merged_kb
           in case merge_analysis error_details merged_kb ai of
                Inl exn \<Rightarrow> Inl exn
              | Inr result \<Rightarrow>
                  Inr (attach_verification self error_details vector_matches result)))"

section \<open>The merge on list objects\<close>

text \<open>
  Python lists are objects: \<open>dict(regex_kb)\<close> copies the dict but not the list its
  \<open>known_solutions\<close> key refers to, and \<open>append\<close> changes a list in place. Here an
  enrichment holds the address of its \<open>known_solutions\<close> list, and the store holds the
  list objects, an address being an index into it.
\<close>

type_synonym addr = nat

type_synonym store = "string list list"

definition deref :: "store \<Rightarrow> addr \<Rightarrow> string list" where
  "deref h a = (if a < length h then h ! a else [])"

text \<open>
  The loop with \<open>merged.setdefault("known_solutions", []).append(sol)\<close>: \<open>setdefault\<close> stores
  a new empty list when the key is absent and returns the list object of the key, to
  which \<open>append\<close> adds in place.
\<close>

fun append_new_st ::
  "string set \<Rightarrow> string list \<Rightarrow> store \<times> addr enrichment \<Rightarrow> store \<times> addr enrichment"
where
  "append_new_st existing_solutions [] (h, merged) = (h, merged)"
| "append_new_st existing_solutions (sol # sols) (h, merged) =
     (if sol \<notin> existing_solutions then
        (case known_solutions merged of
           None \<Rightarrow>
             append_new_st existing_solutions sols
               (h @ ([sol] # []), merged\<lparr>known_solutions := Some (length h)\<rparr>)
         | Some a \<Rightarrow>
             append_new_st existing_solutions sols (h[a := deref h a @ [sol]], merged))
      else append_new_st existing_solutions sols (h, merged))"

text \<open>
  \<open>_merge_kb_enrichments\<close> with the store: it returns the store after the call and the
  returned dict. The loop runs over the elements \<open>vector_solutions\<close> has when it starts:
  the list it appends to is another object, or the same one, and then every element is
  in \<open>existing_solutions\<close> and nothing is appended.
\<close>

definition merge_kb_enrichments_st ::
  "store \<Rightarrow> addr enrichment \<Rightarrow> addr enrichment \<Rightarrow> store \<times> addr enrichment"
where
  "merge_kb_enrichments_st h regex_kb vector_kb =
     (if \<not> truthy (pattern_matched vector_kb) \<and> \<not> truthy (pattern_matched regex_kb)
      then (h, if regex_kb = empty_enrichment then empty_enrichment else regex_kb)
      else if truthy (pattern_matched vector_kb) \<and> \<not> truthy (pattern_matched regex_kb)
      then (h, vector_kb)
      else if truthy (pattern_matched regex_kb) \<and> \<not> truthy (pattern_matched vector_kb)
      then (h, regex_kb)
      else
        (let merged = regex_kb;
             vector_solutions =
               (case known_solutions vector_kb of None \<Rightarrow> [] | Some b \<Rightarrow> deref h b);
             existing_solutions =
               set (case known_solutions merged of None \<Rightarrow> [] | Some a \<Rightarrow> deref h a);
             (h', merged) = append_new_st existing_solutions vector_solutions (h, merged)
         in (h',
             merged
               \<lparr>prevention :=
                  Some (py_get (prevention vector_kb) (py_get (prevention merged) [])),
                similar_errors := Some (py_get (similar_errors vector_kb) []),
                match_confidence := Some (py_get (match_confidence vector_kb) 0)\<rparr>)))"

text \<open>The value of an enrichment in a store: its \<open>known_solutions\<close> list read through the address.\<close>

definition enrichment_value :: "store \<Rightarrow> addr enrichment \<Rightarrow> string list enrichment" where
  "enrichment_value h e =
     \<lparr>pattern_matched = pattern_matched e,
      error_entry = error_entry e,
      runbook = runbook e,
      category = category e,
      known_causes = known_causes e,
      known_solutions = map_option (deref h) (known_solutions e),
      severity = severity e,
      estimated_fix_time = estimated_fix_time e,
      documentation_links = documentation_links e,
      match_confidence = match_confidence e,
      prevention = prevention e,
      similar_errors = similar_errors e,
      closest_match = closest_match e\<rparr>"

section \<open>Concrete inputs\<close>

text \<open>
  A regex engine for single-character patterns, enough to run the matcher. As Python's
  does, it raises \<open>re.error\<close> on the pattern \<open>(\<close> and \<open>OverflowError\<close> on the pattern
  \<open>a{4294967296}\<close>; any other pattern matches each of its occurrences.
\<close>

definition demo_findall :: findall where
  "demo_findall pattern msg =
     (if pattern = ''('' then Inl ReError
      else if pattern = ''a{4294967296}'' then Inl OverflowError
      else Inr (map (\<lambda>c. [c]) (filter (\<lambda>c. [c] = pattern) msg)))"

definition demo_error :: "string \<Rightarrow> string \<Rightarrow> kb_error" where
  "demo_error ident pattern =
     \<lparr>e_id = ident, e_title = ident, e_description = None, e_pattern = PatternString pattern,
      e_category = None, e_common_causes = None, e_solutions = None, e_severity = None,
      e_estimated_fix_time = None, e_docs = None\<rparr>"

text \<open>An entry of the vector catalog and a vector store that answers every query with it.\<close>

definition demo_ventry :: "string \<Rightarrow> ventry" where
  "demo_ventry title =
     \<lparr>v_id = ''conn_timeout'', v_category = ''connectivity'', v_severity = ''high'',
      v_title = title, v_error_pattern = ''connection timed out'',
      v_description = ''A data source connection attempt timed out.'',
      v_causes = [''Target server is overloaded''],
      v_solutions = [''Check firewall rules'', ''Increase the timeout''],
      v_prevention = Some [''Set up connection monitoring alerts''],
      v_estimated_fix_time = Some ''15-30 minutes'', v_documentation = None\<rparr>"

definition demo_hit :: "real \<Rightarrow> search_hit" where
  "demo_hit sim =
     \<lparr>h_entry = demo_ventry ''Connection Timeout Error'', h_similarity = sim,
      h_distance = 1 - sim\<rparr>"

definition demo_search :: "real \<Rightarrow> vsearch" where
  "demo_search sim msg n = Inr [demo_hit sim]"

text \<open>Two matched enrichments that share one solution, and an unmatched one.\<close>

definition demo_regex_enrichment :: "string list enrichment" where
  "demo_regex_enrichment =
     empty_enrichment
       \<lparr>pattern_matched := Some True,
        category := Some ''connectivity'',
        known_solutions := Some [''Restart the integration runtime'', ''Check firewall rules''],
        severity := Some ''high''\<rparr>"

definition demo_vector_enrichment :: "string list enrichment" where
  "demo_vector_enrichment =
     empty_enrichment
       \<lparr>pattern_matched := Some True,
        category := Some ''connectivity'',
        known_solutions := Some [''Check firewall rules'', ''Increase the timeout''],
        match_confidence := Some (7 / 10),
        prevention := Some [''Set up connection monitoring alerts''],
        similar_errors := Some []\<rparr>"

definition demo_unmatched_enrichment :: "string list enrichment" where
  "demo_unmatched_enrichment = empty_enrichment\<lparr>pattern_matched := Some False\<rparr>"

text \<open>A report, a solution and a knowledge-base match for the fact checker.\<close>

definition demo_report :: "string \<Rightarrow> string \<Rightarrow> solution list \<Rightarrow> report" where
  "demo_report root_cause cat solutions =
     \<lparr>r_pipeline_name = Some ''CopySales'', r_run_id = Some ''run-1'',
      r_failing_activity = Some ''CopyData'', r_failing_activity_type = Some ''Copy'',
      r_plain_english_error = ''The copy activity could not reach the database.'',
      r_raw_error_message = ''connection timed out'', r_error_code = ''2200'',
      r_category = cat, r_severity = ''high'', r_root_cause = root_cause,
      r_solutions = solutions, r_known_solutions = [], r_runbook = None,
      r_preventive_measures = [], r_additional_checks = [], r_data_engineering_tips = [],
      r_estimated_fix_time = ''unknown'', r_documentation_links = [],
      r_failed_activities = [], r_succeeded_activities_count = 0,
      r_kb_pattern_matched = False, r_kb_error_id = None, r_fact_check = None,
      r_confidence_score = None, r_confidence_level = None, r_similar_errors = None\<rparr>"

definition demo_solution :: solution where
  "demo_solution =
     \<lparr>s_title = ''Check firewall rules'', s_steps = [], s_estimated_time = ''15 minutes'',
      s_likelihood = ''high''\<rparr>"

definition demo_match :: "string \<Rightarrow> real \<Rightarrow> kb_match" where
  "demo_match cat sim =
     \<lparr>m_entry = Some ((demo_ventry ''Connection Timeout Error'')\<lparr>v_category := cat\<rparr>),
      m_similarity = Some sim\<rparr>"

text \<open>A failure record, and an analyzer whose generative model always raises.\<close>

definition demo_failure :: "string \<Rightarrow> failure_record" where
  "demo_failure msg =
     \<lparr>pipeline_name = Some ''CopySales'', run_id = Some ''run-1'',
      primary_error_message = Some msg, primary_error_code = Some ''2200'',
      primary_failure_type = Some ''UserError'', failing_activity_name = Some ''CopyData'',
      failing_activity_type = Some ''Copy'', failed_activities = Some [],
      succeeded_activities = Some []\<rparr>"

definition failing_model :: ai_model where
  "failing_model prompt = AiRaises"

definition demo_analyzer :: "kb_error list \<Rightarrow> analyzer" where
  "demo_analyzer catalog =
     \<lparr>an_findall = demo_findall,
      an_knowledge_base = \<lparr>errors = catalog, runbooks = (\<lambda>cat. None)\<rparr>,
      an_vector_kb = None,
      an_fact_checker = None,
      an_model = failing_model\<rparr>"

text \<open>
  A store with the two solution lists of the matched enrichments above, and the two
  enrichments referring to them.
\<close>

definition demo_store :: store where
  "demo_store =
     [''Restart the integration runtime'', ''Check firewall rules'']
       # [''Check firewall rules'', ''Increase the timeout''] # []"

definition demo_regex_ref :: "addr enrichment" where
  "demo_regex_ref = empty_enrichment\<lparr>pattern_matched := Some True, known_solutions := Some 0\<rparr>"

definition demo_vector_ref :: "addr enrichment" where
  "demo_vector_ref = empty_enrichment\<lparr>pattern_matched := Some True, known_solutions := Some 1\<rparr>"

section \<open>Properties of the regex matcher\<close>

lemma match_loop_step:
  "\<not> raises_uncaught re msg error \<Longrightarrow>
   match_loop re msg (error # rest) (bm, bs) =
     (if match_count re msg error > bs
      then match_loop re msg rest (Some error, match_count re msg error)
      else match_loop re msg rest (bm, bs))"
  by (cases "call_findall re (e_pattern error) msg")
     (auto simp: match_count_def raises_uncaught_def Let_def)

lemma match_loop_raise:
  "call_findall re (e_pattern error) msg = Inl exn \<Longrightarrow> exn \<noteq> ReError \<Longrightarrow>
   match_loop re msg (error # rest) acc = Inl exn"
  by (cases acc) (simp add: Let_def)

lemma match_loop_keep:
  "\<forall>e \<in> set es. \<not> raises_uncaught re msg e \<and> match_count re msg e \<le> bs \<Longrightarrow>
   match_loop re msg es (bm, bs) = Inr (bm, bs)"
proof (induction es)
  case Nil
  show ?case by simp
next
  case (Cons e es)
  then show ?case by (simp add: match_loop_step del: match_loop.simps)
qed

lemma match_loop_replace:
  "\<forall>e \<in> set es. \<not> raises_uncaught re msg e \<Longrightarrow>
   \<exists>e \<in> set es. bs < match_count re msg e \<Longrightarrow>
   \<exists>pre e post. es = pre @ e # post \<and>
      match_loop re msg es (bm, bs) = Inr (Some e, match_count re msg e) \<and>
      bs < match_count re msg e \<and>
      (\<forall>x \<in> set pre. match_count re msg x < match_count re msg e) \<and>
      (\<forall>x \<in> set post. match_count re msg x \<le> match_count re msg e)"
proof (induction es arbitrary: bm bs)
  case Nil
  then show ?case by simp
next
  case (Cons a es)
  let ?c = "match_count re msg"
  from Cons.prems(1) have quiet: "\<not> raises_uncaught re msg a"
    and quiet_es: "\<forall>e \<in> set es. \<not> raises_uncaught re msg e" by simp_all
  show ?case
  proof (cases "bs < ?c a")
    case True
    note above = True
    show ?thesis
    proof (cases "\<exists>e \<in> set es. ?c a < ?c e")
      case True
      from Cons.IH [OF quiet_es True, of "Some a"]
      obtain pre e post where h: "es = pre @ e # post"
        "match_loop re msg es (Some a, ?c a) = Inr (Some e, ?c e)" "?c a < ?c e"
        "\<forall>x \<in> set pre. ?c x < ?c e" "\<forall>x \<in> set post. ?c x \<le> ?c e"
        by blast
      have "a # es = (a # pre) @ e # post" using h(1) by simp
      moreover have "match_loop re msg (a # es) (bm, bs) = Inr (Some e, ?c e)"
        using above h(2) quiet by (simp add: match_loop_step del: match_loop.simps)
      moreover have "bs < ?c e" using above h(3) by simp
      moreover have "\<forall>x \<in> set (a # pre). ?c x < ?c e" using h(3,4) by simp
      ultimately show ?thesis using h(5) by blast
    next
      case False
      then have le: "\<forall>e \<in> set es. \<not> raises_uncaught re msg e \<and> ?c e \<le> ?c a"
        using quiet_es by (simp add: not_less)
      have "a # es = [] @ a # es" by simp
      moreover have "match_loop re msg (a # es) (bm, bs) = Inr (Some a, ?c a)"
        using above match_loop_keep [OF le] quiet
        by (simp add: match_loop_step del: match_loop.simps)
      ultimately show ?thesis using above le by (metis empty_iff list.set(1))
    qed
  next
    case False
    then have below: "?c a \<le> bs" by simp
    with Cons.prems(2) have "\<exists>e \<in> set es. bs < ?c e" by auto
    from Cons.IH [OF quiet_es this, of bm]
    obtain pre e post where h: "es = pre @ e # post"
      "match_loop re msg es (bm, bs) = Inr (Some e, ?c e)" "bs < ?c e"
      "\<forall>x \<in> set pre. ?c x < ?c e" "\<forall>x \<in> set post. ?c x \<le> ?c e"
      by blast
    have "a # es = (a # pre) @ e # post" using h(1) by simp
    moreover have "match_loop re msg (a # es) (bm, bs) = Inr (Some e, ?c e)"
      using False h(2) quiet by (simp add: match_loop_step del: match_loop.simps)
    moreover have "\<forall>x \<in> set (a # pre). ?c x < ?c e" using below h(3,4) by simp
    ultimately show ?thesis using h(3,5) by blast
  qed
qed

lemma match_loop_skip_invalid:
  "match_loop re msg (filter (pattern_compiles re msg) es) acc = match_loop re msg es acc"
proof (induction es arbitrary: acc)
  case Nil
  show ?case by simp
next
  case (Cons a es)
  obtain bm bs where acc: "acc = (bm, bs)" by (cases acc)
  show ?case
  proof (cases "pattern_compiles re msg a")
    case True
    then show ?thesis using Cons.IH
      by (cases "call_findall re (e_pattern a) msg") (simp_all add: acc Let_def)
  next
    case False
    then show ?thesis using Cons.IH by (simp add: acc pattern_compiles_def Let_def)
  qed
qed

lemma match_loop_abort:
  "\<forall>e \<in> set pre. \<not> raises_uncaught re msg e \<Longrightarrow>
   call_findall re (e_pattern error) msg = Inl exn \<Longrightarrow> exn \<noteq> ReError \<Longrightarrow>
   match_loop re msg (pre @ error # post) acc = Inl exn"
proof (induction pre arbitrary: acc)
  case Nil
  then show ?case by (simp add: match_loop_raise del: match_loop.simps)
next
  case (Cons a pre)
  obtain bm bs where acc: "acc = (bm, bs)" by (cases acc)
  from Cons.prems(1) have "\<not> raises_uncaught re msg a" by simp
  then show ?case using Cons
    by (simp add: acc match_loop_step del: match_loop.simps)
qed

text \<open>
  What \<open>match_error\<close> does when the regex engine raises nothing but \<open>re.error\<close> on the
  catalog: None for an absent or empty message, None exactly when no entry has a match,
  otherwise the entry with the highest number of matches, the earliest one among equals;
  entries whose pattern raises \<open>re.error\<close> change nothing.
\<close>

lemma match_error_best:
  assumes quiet: "\<forall>e \<in> set catalog. \<not> raises_uncaught re msg e" and ne: "msg \<noteq> []"
  shows "\<exists>r. match_error re catalog (Some msg) = Inr r \<and>
      (r = None \<longleftrightarrow> (\<forall>e \<in> set catalog. match_count re msg e = 0)) \<and>
      (\<forall>e. r = Some e \<longrightarrow>
         (\<exists>pre post. catalog = pre @ e # post \<and> 0 < match_count re msg e \<and>
            (\<forall>x \<in> set pre. match_count re msg x < match_count re msg e) \<and>
            (\<forall>x \<in> set post. match_count re msg x \<le> match_count re msg e))) \<and>
      match_error re (filter (pattern_compiles re msg) catalog) (Some msg) = Inr r"
proof (cases "\<exists>e \<in> set catalog. 0 < match_count re msg e")
  case True
  from match_loop_replace [OF quiet True, of None]
  obtain pre e post where h: "catalog = pre @ e # post"
    "match_loop re msg catalog (None, 0) = Inr (Some e, match_count re msg e)"
    "0 < match_count re msg e"
    "\<forall>x \<in> set pre. match_count re msg x < match_count re msg e"
    "\<forall>x \<in> set post. match_count re msg x \<le> match_count re msg e"
    by blast
  have r: "match_error re catalog (Some msg) = Inr (Some e)"
    using ne h(2) by (simp add: match_error_def)
  have f: "match_error re (filter (pattern_compiles re msg) catalog) (Some msg) = Inr (Some e)"
    using ne h(2) by (simp add: match_error_def match_loop_skip_invalid)
  have "\<not> (\<forall>e \<in> set catalog. match_count re msg e = 0)" using True by auto
  with r f h show ?thesis by blast
next
  case False
  then have z: "\<forall>e \<in> set catalog. match_count re msg e = 0" by auto
  with quiet have "\<forall>e \<in> set catalog. \<not> raises_uncaught re msg e \<and> match_count re msg e \<le> 0"
    by simp
  from match_loop_keep [OF this, of None]
  have l: "match_loop re msg catalog (None, 0) = Inr (None, 0)" .
  have r: "match_error re catalog (Some msg) = Inr None"
    using ne l by (simp add: match_error_def)
  have f: "match_error re (filter (pattern_compiles re msg) catalog) (Some msg) = Inr None"
    using ne l by (simp add: match_error_def match_loop_skip_invalid)
  from r f z show ?thesis by simp
qed

text \<open>
  When the engine raises another exception on the pattern of an entry, and on no entry
  before it, that exception leaves \<open>match_error\<close>: the rest of the catalog is not scanned.
\<close>

lemma match_error_aborts:
  assumes "\<forall>e \<in> set pre. \<not> raises_uncaught re msg e"
    and "call_findall re (e_pattern error) msg = Inl exn" and "exn \<noteq> ReError" and "msg \<noteq> []"
  shows "match_error re (pre @ error # post) (Some msg) = Inl exn"
  using match_loop_abort [OF assms(1,2,3), of post "(None, 0)"] assms(4)
  by (simp add: match_error_def)

text \<open>
  Claim C3. The tie-break and the None cases are as the claim says (see above), but an
  invalid pattern is not always skipped: \<open>match_error\<close> catches \<open>re.error\<close> only. On the
  pattern \<open>a{4294967296}\<close> the engine raises \<open>OverflowError\<close>, which leaves \<open>match_error\<close>
  before the entry after it, the one the claim expects as result, is scanned. With the
  invalid pattern \<open>(\<close> in its place the entry is skipped and that result is returned.
\<close>

theorem match_error_overflow_propagates:
  "match_error demo_findall
     [demo_error ''E1'' ''b'', demo_error ''E2'' ''a{4294967296}'', demo_error ''E3'' ''a'']
     (Some ''banana'') = Inl OverflowError \<and>
   match_error demo_findall
     [demo_error ''E1'' ''b'', demo_error ''E2'' ''('', demo_error ''E3'' ''a'']
     (Some ''banana'') = Inr (Some (demo_error ''E3'' ''a''))"
  by (simp add: match_error_def demo_findall_def demo_error_def call_findall_def)


section \<open>Properties of the semantic matcher\<close>

text \<open>
  Claim C4. For an absent or empty message \<open>get_enrichment\<close> returns
  \<open>pattern_matched = False\<close>. For any other message, when the search returns matches,
  \<open>pattern_matched\<close> is True exactly when the similarity of the first match is at least
  0.3, and below 0.3 the result is \<open>pattern_matched = False\<close> with the title of that
  match as \<open>closest_match\<close>; when the search returns no match, \<open>pattern_matched\<close> is False.
\<close>

theorem get_enrichment_floor:
  "vkb_get_enrichment search None = Inr (empty_enrichment\<lparr>pattern_matched := Some False\<rparr>) \<and>
   vkb_get_enrichment search (Some []) = Inr (empty_enrichment\<lparr>pattern_matched := Some False\<rparr>) \<and>
   (msg \<noteq> [] \<and> search msg 3 = Inr [] \<longrightarrow>
      vkb_get_enrichment search (Some msg) =
        Inr (empty_enrichment\<lparr>pattern_matched := Some False\<rparr>)) \<and>
   (msg \<noteq> [] \<and> search msg 3 = Inr (best # rest) \<longrightarrow>
      (\<exists>e. vkb_get_enrichment search (Some msg) = Inr e \<and>
           pattern_matched e = Some (h_similarity best \<ge> 3 / 10) \<and>
           (h_similarity best < 3 / 10 \<longrightarrow>
              e = empty_enrichment\<lparr>pattern_matched := Some False,
                                    closest_match := Some (v_title (h_entry best))\<rparr>)))"
  by (auto simp: vkb_get_enrichment_def Let_def empty_enrichment_def)

theorem get_enrichment_floor_witness:
  "(\<exists>e. vkb_get_enrichment (demo_search (30 / 100)) (Some ''timeout'') = Inr e \<and>
        pattern_matched e = Some True) \<and>
   (\<exists>e. vkb_get_enrichment (demo_search (29 / 100)) (Some ''timeout'') = Inr e \<and>
        pattern_matched e = Some False \<and> closest_match e = Some ''Connection Timeout Error'')"
  using get_enrichment_floor [of "demo_search (30 / 100)" "''timeout''" "demo_hit (30 / 100)" "[]"]
        get_enrichment_floor [of "demo_search (29 / 100)" "''timeout''" "demo_hit (29 / 100)" "[]"]
  by (auto simp: demo_search_def demo_hit_def empty_enrichment_def demo_ventry_def)

section \<open>Properties of the merge\<close>

lemma py_get_simps:
  "py_get None d = d" "py_get (Some v) d = v"
  by (simp_all add: py_get_def)

lemma append_new_filter:
  "append_new ex sols m =
     (if filter (\<lambda>s. s \<notin> ex) sols = [] then m
      else m\<lparr>known_solutions :=
               Some (py_get (known_solutions m) [] @ filter (\<lambda>s. s \<notin> ex) sols)\<rparr>)"
proof (induction sols arbitrary: m)
  case Nil
  show ?case by simp
next
  case (Cons s sols)
  show ?case by (simp add: Cons.IH py_get_simps)
qed




text \<open>
  Claim C6. When exactly one enrichment is matched the merge returns that enrichment, and
  when neither is matched it returns the regex enrichment.
\<close>

theorem merge_one_matched:
  "(truthy (pattern_matched vector_kb) \<and> \<not> truthy (pattern_matched regex_kb) \<longrightarrow>
      merge_kb_enrichments regex_kb vector_kb = vector_kb) \<and>
   (truthy (pattern_matched regex_kb) \<and> \<not> truthy (pattern_matched vector_kb) \<longrightarrow>
      merge_kb_enrichments regex_kb vector_kb = regex_kb) \<and>
   (\<not> truthy (pattern_matched regex_kb) \<and> \<not> truthy (pattern_matched vector_kb) \<longrightarrow>
      merge_kb_enrichments regex_kb vector_kb = regex_kb)"
  by (simp add: merge_kb_enrichments_def)

theorem merge_one_matched_witness:
  "merge_kb_enrichments demo_unmatched_enrichment demo_vector_enrichment = demo_vector_enrichment \<and>
   merge_kb_enrichments demo_regex_enrichment demo_unmatched_enrichment = demo_regex_enrichment \<and>
   merge_kb_enrichments demo_unmatched_enrichment empty_enrichment = demo_unmatched_enrichment"
  using merge_one_matched [of demo_vector_enrichment demo_unmatched_enrichment]
        merge_one_matched [of demo_unmatched_enrichment demo_regex_enrichment]
        merge_one_matched [of empty_enrichment demo_unmatched_enrichment]
  by (simp add: demo_regex_enrichment_def demo_vector_enrichment_def
        demo_unmatched_enrichment_def empty_enrichment_def truthy_def)

section \<open>Properties of the fallback fact check\<close>

lemma fallback_confidence_values:
  "fallback_confidence analysis kb_matches
     \<in> {5 / 10, 6 / 10, 7 / 10, 8 / 10, 85 / 100, 9 / 10, 95 / 100}"
  by (simp add: fallback_confidence_def Let_def split: option.split list.split)

lemma py_round_hundredths:
  "py_round (real_of_int k / 100) 2 = real_of_int k / 100"
  by (simp add: py_round_def Let_def)

lemma py_round_values:
  assumes "c \<in> {5 / 10, 6 / 10, 7 / 10, 8 / 10, 85 / 100, 9 / 10, 95 / 100}"
  shows "py_round c 2 = c"
proof -
  from assms have "c = real_of_int 50 / 100 \<or> c = real_of_int 60 / 100 \<or>
      c = real_of_int 70 / 100 \<or> c = real_of_int 80 / 100 \<or> c = real_of_int 85 / 100 \<or>
      c = real_of_int 90 / 100 \<or> c = real_of_int 95 / 100"
    by auto
  then obtain k where "c = real_of_int k / 100" by blast
  then show ?thesis by (simp only: py_round_hundredths)
qed

lemma fallback_score_exact:
  "confidence_score (fallback_verification analysis kb_matches) =
     fallback_confidence analysis kb_matches"
  using py_round_values [OF fallback_confidence_values]
  by (simp add: fallback_verification_def Let_def)

text \<open>
  The level of the fallback at the two sums: 0.7 + 0.1 is below 0.8 as the code computes
  it, so its level is medium although its rounded score is 0.8.
\<close>

lemma fallback_level_at_sums:
  "score_to_level (confidence_float (8 / 10)) = ''medium''"
  "score_to_level (confidence_float (9 / 10)) = ''high''"
  "score_to_level (confidence_float (85 / 100)) = ''high''"
  by (simp_all add: score_to_level_def confidence_float_def)

text \<open>
  The score for any input: the boost for the category is behind the guard
  \<open>if kb_matches and analysis.get("category")\<close>.
\<close>

lemma fallback_confidence_guarded:
  "let best = (case kb_matches of Some (m # ms) \<Rightarrow> Some m | _ \<Rightarrow> None);
       base = (case best of
                 None \<Rightarrow> 5 / 10
               | Some m \<Rightarrow>
                   if py_get (m_similarity m) 0 > 6 / 10 then 85 / 100
                   else if py_get (m_similarity m) 0 > 4 / 10 then 70 / 100
                   else if py_get (m_similarity m) 0 > 3 / 10 then 60 / 100
                   else 5 / 10);
       has_content = (r_root_cause analysis \<noteq> [] \<and> r_solutions analysis \<noteq> []);
       confirmed = (case best of
                      None \<Rightarrow> False
                    | Some m \<Rightarrow>
                        r_category analysis \<noteq> [] \<and>
                        (case m_entry m of None \<Rightarrow> [] | Some e \<Rightarrow> v_category e)
                          = r_category analysis);
       with_content = (if has_content then min (base + 1 / 10) (95 / 100) else base);
       final = (if confirmed then min (with_content + 1 / 10) (95 / 100) else with_content);
       v = fallback_verification analysis kb_matches
   in confidence_score v = final \<and>
      (low_confidence_flag \<in> set (flagged_issues v) \<longleftrightarrow> final \<le> 5 / 10)"
proof -
  have flag: "low_confidence_flag \<in> set (flagged_issues (fallback_verification analysis kb_matches))
      \<longleftrightarrow> fallback_confidence analysis kb_matches \<le> 5 / 10"
    by (auto simp: fallback_verification_def Let_def)
  show ?thesis
    unfolding Let_def fallback_score_exact flag
    by (simp add: fallback_confidence_def Let_def split: option.split list.split)
qed

text \<open>
  Claim C2. The matches \<open>verify\<close> receives are those \<open>search\<close> builds from
  \<open>ADF_ERROR_KNOWLEDGE\<close>, whose entries all have a non-empty category. For such matches
  (the best match, when there is one, has a non-empty category) the confidence score of
  \<open>_fallback_verification\<close> is: 0.5, replaced by 0.85, 0.70 or 0.60 when the similarity of
  the best match exceeds 0.6, 0.4 or 0.3; plus 0.1, capped at 0.95, when the report has a
  non-empty root cause and at least one solution; plus 0.1, capped at 0.95, when the
  category of the best match equals the category of the report. The low-confidence flag
  is in \<open>flagged_issues\<close> exactly when that score is at most 0.5.
\<close>

theorem fallback_confidence_formula:
  assumes "\<forall>m ms. kb_matches = Some (m # ms) \<longrightarrow>
             (case m_entry m of None \<Rightarrow> [] | Some e \<Rightarrow> v_category e) \<noteq> []"
  shows
  "let best = (case kb_matches of Some (m # ms) \<Rightarrow> Some m | _ \<Rightarrow> None);
       base = (case best of
                 None \<Rightarrow> 5 / 10
               | Some m \<Rightarrow>
                   if py_get (m_similarity m) 0 > 6 / 10 then 85 / 100
                   else if py_get (m_similarity m) 0 > 4 / 10 then 70 / 100
                   else if py_get (m_similarity m) 0 > 3 / 10 then 60 / 100
                   else 5 / 10);
       has_content = (r_root_cause analysis \<noteq> [] \<and> r_solutions analysis \<noteq> []);
       confirmed = (case best of
                      None \<Rightarrow> False
                    | Some m \<Rightarrow>
                        (case m_entry m of None \<Rightarrow> [] | Some e \<Rightarrow> v_category e)
                          = r_category analysis);
       with_content = (if has_content then min (base + 1 / 10) (95 / 100) else base);
       final = (if confirmed then min (with_content + 1 / 10) (95 / 100) else with_content);
       v = fallback_verification analysis kb_matches
   in confidence_score v = final \<and>
      (low_confidence_flag \<in> set (flagged_issues v) \<longleftrightarrow> final \<le> 5 / 10)"
proof -
  have same: "(case (case kb_matches of Some (m # ms) \<Rightarrow> Some m | _ \<Rightarrow> None) of
                 None \<Rightarrow> False
               | Some m \<Rightarrow>
                   r_category analysis \<noteq> [] \<and>
                   (case m_entry m of None \<Rightarrow> [] | Some e \<Rightarrow> v_category e)
                     = r_category analysis) =
              (case (case kb_matches of Some (m # ms) \<Rightarrow> Some m | _ \<Rightarrow> None) of
                 None \<Rightarrow> False
               | Some m \<Rightarrow>
                   (case m_entry m of None \<Rightarrow> [] | Some e \<Rightarrow> v_category e)
                     = r_category analysis)"
  proof (cases kb_matches)
    case None
    then show ?thesis by simp
  next
    case (Some xs)
    show ?thesis
    proof (cases xs)
      case Nil
      with Some show ?thesis by simp
    next
      case (Cons m ms)
      with Some assms
      have "(case m_entry m of None \<Rightarrow> [] | Some e \<Rightarrow> v_category e) \<noteq> []" by simp
      with Some Cons show ?thesis by auto
    qed
  qed
  from fallback_confidence_guarded [of kb_matches analysis] show ?thesis
    unfolding Let_def same .
qed

theorem fallback_confidence_formula_witness:
  "(case m_entry (demo_match ''connectivity'' (45 / 100)) of
      None \<Rightarrow> [] | Some e \<Rightarrow> v_category e) \<noteq> [] \<and>
   confidence_score
     (fallback_verification
        (demo_report ''Firewall blocks port 1433'' ''connectivity'' [demo_solution])
        (Some [demo_match ''connectivity'' (45 / 100)])) = 90 / 100 \<and>
   low_confidence_flag \<in> set (flagged_issues (fallback_verification (demo_report [] [] []) None))"
proof -
  have h: "\<forall>m ms. Some [demo_match ''connectivity'' (45 / 100)] = Some (m # ms) \<longrightarrow>
             (case m_entry m of None \<Rightarrow> [] | Some e \<Rightarrow> v_category e) \<noteq> []"
    by (simp add: demo_match_def demo_ventry_def)
  have n: "\<forall>m ms. (None :: kb_match list option) = Some (m # ms) \<longrightarrow>
             (case m_entry m of None \<Rightarrow> [] | Some e \<Rightarrow> v_category e) \<noteq> []"
    by simp
  from fallback_confidence_formula [OF h,
         of "demo_report ''Firewall blocks port 1433'' ''connectivity'' [demo_solution]"]
       fallback_confidence_formula [OF n, of "demo_report [] [] []"]
  show ?thesis
    by (simp add: Let_def demo_match_def demo_report_def demo_ventry_def py_get_simps)
qed

text \<open>
  Claim C8. The confidence score of \<open>_fallback_verification\<close> lies between 0 and 0.95, and
  with the report and the matches fixed except for the similarity of the first match, a
  higher similarity never gives a lower score.
\<close>

theorem fallback_confidence_monotone:
  "0 \<le> confidence_score (fallback_verification analysis kb_matches) \<and>
   confidence_score (fallback_verification analysis kb_matches) \<le> 95 / 100 \<and>
   (s1 \<le> s2 \<longrightarrow>
      confidence_score (fallback_verification analysis (Some (m\<lparr>m_similarity := Some s1\<rparr> # ms)))
        \<le> confidence_score
             (fallback_verification analysis (Some (m\<lparr>m_similarity := Some s2\<rparr> # ms))))"
proof -
  have range: "0 \<le> fallback_confidence analysis kb_matches \<and>
               fallback_confidence analysis kb_matches \<le> 95 / 100"
    using fallback_confidence_values [of analysis kb_matches] by auto
  have mono: "s1 \<le> s2 \<longrightarrow>
      fallback_confidence analysis (Some (m\<lparr>m_similarity := Some s1\<rparr> # ms))
        \<le> fallback_confidence analysis (Some (m\<lparr>m_similarity := Some s2\<rparr> # ms))"
    by (simp add: fallback_confidence_def Let_def py_get_simps)
  show ?thesis using range mono by (simp add: fallback_score_exact)
qed

theorem fallback_confidence_monotone_witness:
  "(3 / 10 :: real) \<le> 45 / 100 \<and>
   confidence_score (fallback_verification (demo_report [] [] [])
       (Some [demo_match ''connectivity'' (3 / 10)])) \<le>
   confidence_score (fallback_verification (demo_report [] [] [])
       (Some [demo_match ''connectivity'' (45 / 100)]))"
  using fallback_confidence_monotone [of "demo_report [] [] []" None "3 / 10" "45 / 100"
          "demo_match ''connectivity'' 0" "[]"]
  by (simp add: demo_match_def)

text \<open>
  Claim C10. Every result of \<open>_fallback_verification\<close> has \<open>severity_correct\<close> True,
  \<open>root_cause_accurate\<close> true exactly when the computed confidence exceeds 0.6,
  \<open>solutions_applicable\<close> true exactly when it exceeds 0.5, and as \<open>confidence_score\<close>
  the computed confidence rounded to two decimals; the two flags can be read off the
  returned score as well.
\<close>

theorem fallback_verification_fields:
  "let c = fallback_confidence analysis kb_matches;
       v = fallback_verification analysis kb_matches
   in severity_correct v = True \<and>
      root_cause_accurate v = (c > 6 / 10) \<and>
      solutions_applicable v = (c > 5 / 10) \<and>
      confidence_score v = py_round c 2 \<and>
      root_cause_accurate v = (confidence_score v > 6 / 10) \<and>
      solutions_applicable v = (confidence_score v > 5 / 10)"
  using py_round_values [OF fallback_confidence_values [of analysis kb_matches]]
  by (simp add: fallback_verification_def Let_def)

section \<open>Properties of the prompt\<close>

text \<open>
  Claim C9, amended. The primary error message put into the prompt context is the
  message itself when it has at most 2000 characters, and otherwise its first 2000
  characters followed by the three characters of an ellipsis: 2003 characters.
\<close>

theorem prompt_message_truncated:
  "let msg = py_get (primary_error_message error_details) [];
       included = pc_primary_error_message (build_prompt error_details kb_enrichment)
   in (length msg \<le> 2000 \<longrightarrow> included = msg) \<and>
      (2000 < length msg \<longrightarrow> included = take 2000 msg @ ''...'' \<and> length included = 2003) \<and>
      length included \<le> 2003"
  by (auto simp: build_prompt_def truncate_string_def Let_def)

text \<open>
  Claim C9 as stated fails: for a message of 2001 characters the included string is
  longer than 2000 characters.
\<close>

theorem prompt_message_counterexample:
  "length (replicate 2001 CHR ''x'') = 2001 \<and>
   \<not> length (pc_primary_error_message
               (build_prompt (demo_failure (replicate 2001 CHR ''x'')) empty_enrichment)) \<le> 2000"
  by (simp add: build_prompt_def truncate_string_def Let_def demo_failure_def py_get_simps)

theorem prompt_message_truncated_witness:
  "2000 < length (replicate 2001 CHR ''x'') \<and>
   pc_primary_error_message
     (build_prompt (demo_failure (replicate 2001 CHR ''x'')) empty_enrichment)
     = replicate 2000 CHR ''x'' @ ''...''"
  using prompt_message_truncated [of "demo_failure (replicate 2001 CHR ''x'')" empty_enrichment]
  by (simp add: Let_def demo_failure_def py_get_simps)

section \<open>Properties of the fallback report\<close>

lemma attach_verification_fields:
  "r_plain_english_error (attach_verification self ed ms r) = r_plain_english_error r"
  "r_category (attach_verification self ed ms r) = r_category r"
  "r_severity (attach_verification self ed ms r) = r_severity r"
  "r_solutions (attach_verification self ed ms r) = r_solutions r"
  "r_kb_pattern_matched (attach_verification self ed ms r) = r_kb_pattern_matched r"
  by (simp_all add: attach_verification_def Let_def split: option.split)

text \<open>
  When the regex lookup raises nothing and the generative model raises or its answer does
  not parse, \<open>analyze\<close> returns a report, and its explanation, category, severity and
  solutions are those of the fallback analysis of the merged enrichment.
\<close>

lemma analyze_uses_fallback:
  assumes "merged_enrichment self ed = Inr kb"
    and "an_model self (build_prompt ed kb) = AiRaises \<or>
         an_model self (build_prompt ed kb) = AiUnparsable"
  shows "\<exists>r r0. analyze self ed = Inr r \<and>
           merge_analysis ed kb (JsonObject (fallback_analysis ed (Some kb))) = Inr r0 \<and>
           r_plain_english_error r = r_plain_english_error r0 \<and>
           r_category r = r_category r0 \<and> r_severity r = r_severity r0 \<and>
           r_solutions r = r_solutions r0"
proof -
  from assms(2) have ai: "get_ai_analysis (an_model self) ed kb =
      JsonObject (fallback_analysis ed (Some kb))"
    by (auto simp: get_ai_analysis_def)
  obtain r0 where r0: "merge_analysis ed kb (JsonObject (fallback_analysis ed (Some kb))) = Inr r0"
    by (simp add: merge_analysis_def)
  obtain ve vm where vl: "vector_lookup self (py_get (primary_error_message ed) []) = (ve, vm)"
    by (cases "vector_lookup self (py_get (primary_error_message ed) [])")
  have "analyze self ed = Inr (attach_verification self ed vm r0)"
    by (simp add: analyze_def Let_def assms(1) vl ai r0)
  then show ?thesis using r0 by (simp add: attach_verification_fields)
qed


text \<open>
  In that report the explanation is never empty; for an unmatched enrichment the
  category is \<open>unknown\<close>, the severity \<open>medium\<close> and the one solution the manual
  investigation; for a matched enrichment category and severity are those of the
  enrichment.
\<close>

lemma fallback_report_fields:
  assumes "merge_analysis ed kb (JsonObject (fallback_analysis ed (Some kb))) = Inr r0"
  shows "r_plain_english_error r0 \<noteq> []"
    and "r_category r0 =
           (if truthy (pattern_matched kb) then py_get (category kb) ''unknown'' else ''unknown'')"
    and "r_severity r0 =
           (if truthy (pattern_matched kb) then py_get (severity kb) ''medium'' else ''medium'')"
    and "\<not> truthy (pattern_matched kb) \<Longrightarrow>
           map s_title (r_solutions r0) = [''Manual Investigation'']"
proof -
  have r: "r0 = (case merge_analysis ed kb (JsonObject (fallback_analysis ed (Some kb))) of
                   Inr x \<Rightarrow> x | Inl _ \<Rightarrow> r0)"
    using assms by simp
  have m: "py_get (pattern_matched kb) False = truthy (pattern_matched kb)"
    by (simp add: py_get_def truthy_def split: option.split)
  show "r_plain_english_error r0 \<noteq> []"
    by (subst r) (simp add: merge_analysis_def fallback_analysis_def Let_def py_get_simps m)
  show "r_category r0 =
           (if truthy (pattern_matched kb) then py_get (category kb) ''unknown'' else ''unknown'')"
    by (subst r) (simp add: merge_analysis_def fallback_analysis_def Let_def py_get_simps m)
  show "r_severity r0 =
           (if truthy (pattern_matched kb) then py_get (severity kb) ''medium'' else ''medium'')"
    by (subst r) (simp add: merge_analysis_def fallback_analysis_def Let_def py_get_simps m)
  show "map s_title (r_solutions r0) = [''Manual Investigation'']"
    if "\<not> truthy (pattern_matched kb)"
    using that
    by (subst r) (simp add: merge_analysis_def fallback_analysis_def Let_def py_get_simps m)
qed


lemma demo_vector_lookup:
  "vector_lookup (demo_analyzer catalog) msg = (empty_enrichment, [])"
  by (simp add: vector_lookup_def demo_analyzer_def)

lemma demo_unsolved_merged:
  "merged_enrichment (demo_analyzer [demo_error ''E1'' ''b'']) (demo_failure ''boom'') =
     Inr \<lparr>pattern_matched = Some True,
          error_entry = Some (RegexEntry (demo_error ''E1'' ''b'')),
          runbook = None, category = Some ''unknown'', known_causes = Some [],
          known_solutions = Some [], severity = Some ''medium'',
          estimated_fix_time = Some ''unknown'', documentation_links = Some [],
          match_confidence = None, prevention = None, similar_errors = None,
          closest_match = None\<rparr>"
proof -
  have m: "match_error demo_findall [demo_error ''E1'' ''b''] (Some ''boom'')
             = Inr (Some (demo_error ''E1'' ''b''))"
    by (simp add: match_error_def call_findall_def demo_findall_def demo_error_def)
  have k: "kb_get_enrichment demo_findall \<lparr>errors = [demo_error ''E1'' ''b''], runbooks = (\<lambda>cat. None)\<rparr>
             (Some ''boom'') =
     Inr \<lparr>pattern_matched = Some True,
          error_entry = Some (RegexEntry (demo_error ''E1'' ''b'')),
          runbook = None, category = Some ''unknown'', known_causes = Some [],
          known_solutions = Some [], severity = Some ''medium'',
          estimated_fix_time = Some ''unknown'', documentation_links = Some [],
          match_confidence = None, prevention = None, similar_errors = None,
          closest_match = None\<rparr>"
    by (simp add: kb_get_enrichment_def m Let_def get_runbook_def py_get_simps)
      (simp add: demo_error_def py_get_simps)
  have a: "an_findall (demo_analyzer [demo_error ''E1'' ''b'']) = demo_findall"
    "an_knowledge_base (demo_analyzer [demo_error ''E1'' ''b''])
       = \<lparr>errors = [demo_error ''E1'' ''b''], runbooks = (\<lambda>cat. None)\<rparr>"
    by (simp_all add: demo_analyzer_def)
  have f: "py_get (primary_error_message (demo_failure ''boom'')) [] = ''boom''"
    by (simp add: demo_failure_def py_get_simps)
  show ?thesis
    by (simp add: merged_enrichment_def Let_def demo_vector_lookup a f k
          merge_kb_enrichments_def truthy_def empty_enrichment_def)
qed

text \<open>
  Claim C7. The claim fails on the code. The generative model raises; the catalog entry
  that matches the message has no \<open>solutions\<close> key and its category has no runbook. The
  unmatched branch of \<open>_fallback_analysis\<close> always returns the manual investigation, and
  the matched branch gives \<open>root_cause\<close> and \<open>preventive_measures\<close> a default, but it
  returns the solutions as it built them from the enrichment: \<open>analyze\<close> returns a report
  that is matched and has no solution.
\<close>

theorem analyze_fallback_no_solution:
  "an_model (demo_analyzer [demo_error ''E1'' ''b'']) = failing_model \<and>
   map_sum id r_kb_pattern_matched
     (analyze (demo_analyzer [demo_error ''E1'' ''b'']) (demo_failure ''boom'')) = Inr True \<and>
   map_sum id r_solutions
     (analyze (demo_analyzer [demo_error ''E1'' ''b'']) (demo_failure ''boom'')) = Inr []"
proof -
  have f: "py_get (primary_error_message (demo_failure ''boom'')) [] = ''boom''"
    by (simp add: demo_failure_def py_get_simps)
  have m: "an_model (demo_analyzer [demo_error ''E1'' ''b'']) = failing_model"
    by (simp add: demo_analyzer_def)
  show ?thesis
    by (simp add: m analyze_def Let_def demo_unsolved_merged demo_vector_lookup f
          get_ai_analysis_def failing_model_def attach_verification_fields
          merge_analysis_def fallback_analysis_def py_get_simps)
qed


section \<open>The effect of the merge on its arguments\<close>

lemma append_new_st_skip:
  "s \<in> ex \<Longrightarrow> append_new_st ex (s # sols) (h, m) = append_new_st ex sols (h, m)"
  by simp

lemma append_new_st_absent:
  "known_solutions m = None \<Longrightarrow> s \<notin> ex \<Longrightarrow>
   append_new_st ex (s # sols) (h, m) =
     append_new_st ex sols (h @ ([s] # []), m\<lparr>known_solutions := Some (length h)\<rparr>)"
  by simp

lemma append_new_st_present:
  "known_solutions m = Some a \<Longrightarrow> s \<notin> ex \<Longrightarrow>
   append_new_st ex (s # sols) (h, m) = append_new_st ex sols (h[a := deref h a @ [s]], m)"
  by simp

lemma append_new_st_at:
  "known_solutions m = Some a \<Longrightarrow> a < length h \<Longrightarrow>
   append_new_st ex sols (h, m) = (h[a := h ! a @ filter (\<lambda>s. s \<notin> ex) sols], m)"
proof (induction sols arbitrary: h)
  case Nil
  then show ?case by simp
next
  case (Cons s sols)
  show ?case
  proof (cases "s \<in> ex")
    case True
    then show ?thesis using Cons by (simp del: append_new_st.simps add: append_new_st_skip)
  next
    case False
    have "append_new_st ex (s # sols) (h, m) = append_new_st ex sols (h[a := deref h a @ [s]], m)"
      using Cons.prems(1) False by (rule append_new_st_present)
    also have "\<dots> = ((h[a := deref h a @ [s]])[a := (h[a := deref h a @ [s]]) ! a
                        @ filter (\<lambda>s. s \<notin> ex) sols], m)"
      using Cons.prems by (intro Cons.IH) simp_all
    also have "\<dots> = (h[a := h ! a @ filter (\<lambda>s. s \<notin> ex) (s # sols)], m)"
      using Cons.prems(2) False by (simp add: deref_def)
    finally show ?thesis .
  qed
qed

lemma append_new_st_fresh:
  "known_solutions m = None \<Longrightarrow>
   append_new_st ex sols (h, m) =
     (if filter (\<lambda>s. s \<notin> ex) sols = [] then (h, m)
      else (h @ [filter (\<lambda>s. s \<notin> ex) sols], m\<lparr>known_solutions := Some (length h)\<rparr>))"
proof (induction sols)
  case Nil
  show ?case by simp
next
  case (Cons s sols)
  show ?case
  proof (cases "s \<in> ex")
    case True
    then show ?thesis using Cons by (simp del: append_new_st.simps add: append_new_st_skip)
  next
    case False
    have "append_new_st ex (s # sols) (h, m) =
        append_new_st ex sols (h @ ([s] # []), m\<lparr>known_solutions := Some (length h)\<rparr>)"
      using Cons.prems False by (rule append_new_st_absent)
    also have "\<dots> = ((h @ ([s] # []))[length h := (h @ ([s] # [])) ! length h
                        @ filter (\<lambda>s. s \<notin> ex) sols], m\<lparr>known_solutions := Some (length h)\<rparr>)"
      by (rule append_new_st_at) simp_all
    also have "\<dots> = (h @ [filter (\<lambda>s. s \<notin> ex) (s # sols)],
                      m\<lparr>known_solutions := Some (length h)\<rparr>)"
      using False by simp
    finally show ?thesis using False by simp
  qed
qed


lemma enrichment_value_fields:
  "pattern_matched (enrichment_value h e) = pattern_matched e"
  "known_solutions (enrichment_value h e) = map_option (deref h) (known_solutions e)"
  "prevention (enrichment_value h e) = prevention e"
  by (simp_all add: enrichment_value_def)

lemma orelse_empty: "(if e = empty_enrichment then empty_enrichment else e) = e"
  by simp

text \<open>
  The dict returned by the merge with the store, read in the store after the call, is
  the value the merge on values returns: the model on values used above describes the
  returned enrichment whatever the sharing of list objects.
\<close>

lemma merge_st_refines:
  assumes ra: "\<forall>a. known_solutions regex_kb = Some a \<longrightarrow> a < length h"
  shows "enrichment_value (fst (merge_kb_enrichments_st h regex_kb vector_kb))
           (snd (merge_kb_enrichments_st h regex_kb vector_kb)) =
         merge_kb_enrichments (enrichment_value h regex_kb) (enrichment_value h vector_kb)"
proof (cases "truthy (pattern_matched regex_kb) \<and> truthy (pattern_matched vector_kb)")
  case False
  then show ?thesis
    by (auto simp: merge_kb_enrichments_st_def merge_kb_enrichments_def
          enrichment_value_fields orelse_empty)
next
  case True
  define vs where "vs = (case known_solutions vector_kb of None \<Rightarrow> [] | Some b \<Rightarrow> deref h b)"
  define old where "old = (case known_solutions regex_kb of None \<Rightarrow> [] | Some a \<Rightarrow> deref h a)"
  define new where "new = filter (\<lambda>s. s \<notin> set old) vs"
  have vs: "py_get (map_option (deref h) (known_solutions vector_kb)) [] = vs"
    by (simp add: vs_def py_get_def split: option.split)
  have old: "py_get (map_option (deref h) (known_solutions regex_kb)) [] = old"
    by (simp add: old_def py_get_def split: option.split)
  have rhs: "merge_kb_enrichments (enrichment_value h regex_kb) (enrichment_value h vector_kb) =
      (if new = [] then enrichment_value h regex_kb
       else (enrichment_value h regex_kb)\<lparr>known_solutions := Some (old @ new)\<rparr>)
        \<lparr>prevention := Some (py_get (prevention vector_kb) (py_get (prevention regex_kb) [])),
         similar_errors := Some (py_get (similar_errors vector_kb) []),
         match_confidence := Some (py_get (match_confidence vector_kb) 0)\<rparr>"
    using True
    by (simp add: merge_kb_enrichments_def Let_def append_new_filter enrichment_value_fields
          vs old new_def [symmetric])
      (simp add: enrichment_value_def)
  have lhs: "merge_kb_enrichments_st h regex_kb vector_kb =
      (case append_new_st (set old) vs (h, regex_kb) of
         (h', merged) \<Rightarrow>
           (h', merged
              \<lparr>prevention :=
                 Some (py_get (prevention vector_kb) (py_get (prevention merged) [])),
               similar_errors := Some (py_get (similar_errors vector_kb) []),
               match_confidence := Some (py_get (match_confidence vector_kb) 0)\<rparr>))"
    using True by (simp add: merge_kb_enrichments_st_def Let_def vs_def old_def)
  show ?thesis
  proof (cases "known_solutions regex_kb")
    case None
    have loop: "append_new_st (set old) vs (h, regex_kb) =
        (if new = [] then (h, regex_kb)
         else (h @ [new], regex_kb\<lparr>known_solutions := Some (length h)\<rparr>))"
      unfolding new_def using None by (rule append_new_st_fresh)
    have "old = []" using None by (simp add: old_def)
    then show ?thesis
      unfolding rhs lhs loop using None
      by (simp add: enrichment_value_def deref_def)
  next
    case (Some a)
    with ra have a: "a < length h" by simp
    have loop: "append_new_st (set old) vs (h, regex_kb) = (h[a := h ! a @ new], regex_kb)"
      unfolding new_def using Some a by (rule append_new_st_at)
    have "old = h ! a" using Some a by (simp add: old_def deref_def)
    then show ?thesis
      unfolding rhs lhs loop using Some a
      by (simp add: enrichment_value_def deref_def)
  qed
qed

text \<open>
  Claim C1. The merge is deterministic, as every function here, but it is not free of
  side effects, and the claim fails on the code: when both enrichments are matched and
  the semantic one has a solution the regex one lacks, \<open>append\<close> extends the list object
  the regex enrichment refers to (\<open>dict(regex_kb)\<close> copied the dict, not its lists). At
  this input the \<open>known_solutions\<close> of the regex enrichment has two elements before the
  call and three after it.
\<close>

theorem merge_mutates_regex_solutions:
  "known_solutions (enrichment_value demo_store demo_regex_ref) =
     Some [''Restart the integration runtime'', ''Check firewall rules''] \<and>
   known_solutions
     (enrichment_value (fst (merge_kb_enrichments_st demo_store demo_regex_ref demo_vector_ref))
        demo_regex_ref) =
     Some [''Restart the integration runtime'', ''Check firewall rules'',
           ''Increase the timeout'']"
proof -
  have a: "known_solutions demo_regex_ref = Some 0" "0 < length demo_store"
    by (simp_all add: demo_regex_ref_def demo_store_def empty_enrichment_def)
  have m: "truthy (pattern_matched demo_regex_ref)" "truthy (pattern_matched demo_vector_ref)"
    by (simp_all add: demo_regex_ref_def demo_vector_ref_def empty_enrichment_def truthy_def)
  have v: "known_solutions demo_vector_ref = Some 1"
    by (simp add: demo_vector_ref_def empty_enrichment_def)
  show ?thesis
    using m
    by (simp add: merge_kb_enrichments_st_def Let_def append_new_st_at [OF a] a v
          enrichment_value_fields)
      (simp add: demo_store_def deref_def)
qed

end
